theory Spec2Isabelle
  imports Main
begin

section \<open>Strings, identifiers and replies\<close>

text \<open>
  A string of a request, and a text stored in a row, is a JavaScript string: its list of
  UTF-16 code units. \<open>js\<close> writes such a string from an ASCII literal. The messages of the
  replies are constants of the program and stay plain strings. Identifiers travel as
  strings; a row holds an identifier in the form the database prints it.
\<close>

type_synonym jsstring = "nat list"

type_synonym uid = jsstring

definition js :: "string \<Rightarrow> jsstring" where
  "js s = map of_char s"

text \<open>
  What the \<^verbatim>\<open>try\<close> block of a handler can catch: a duplicate key, a placeholder without a
  value, a parameter the database does not accept for its column, and \<^verbatim>\<open>jwt.sign\<close> without
  a secret.
\<close>

datatype thrown = UniqueViolation | BindError | InvalidParameter | MissingSecret

record 'd reply =
  status :: nat
  success :: bool
  message :: string
  errors :: "string list"
  error :: "thrown option"
  data :: "'d option"

definition failure :: "nat \<Rightarrow> string \<Rightarrow> 'd reply" where
  "failure code msg =
     \<lparr>status = code, success = False, message = msg, errors = [], error = None, data = None\<rparr>"

definition fault :: "string \<Rightarrow> thrown \<Rightarrow> 'd reply" where
  \<comment> \<open>the catch block of every handler: \<^verbatim>\<open>res.status(500).json({success: false, message, error})\<close>\<close>
  "fault msg e =
     \<lparr>status = 500, success = False, message = msg, errors = [], error = Some e, data = None\<rparr>"

definition ok :: "nat \<Rightarrow> string \<Rightarrow> 'd option \<Rightarrow> 'd reply" where
  "ok code msg d =
     \<lparr>status = code, success = True, message = msg, errors = [], error = None, data = d\<rparr>"

subsection \<open>The validation middleware (middleware/validation.js)\<close>

text \<open>
  \<^verbatim>\<open>validate\<close> answers 400 as soon as the chains before it recorded an error, and lets the
  request through otherwise.
\<close>

definition validate :: "string list \<Rightarrow> 'd reply option" where
  "validate errs =
     (if errs \<noteq> [] then
        Some \<lparr>status = 400, success = False, message = ''Validation failed'',
              errors = errs, error = None, data = None\<rparr>
      else None)"

text \<open>
  The checks themselves belong to the express-validator library. A chain reads the named
  field of the request, and a field that is not there is checked as the empty string.
  \<^verbatim>\<open>isUUID\<close> accepts the five groups of 8, 4, 4, 4 and 12 hexadecimal digits in either case;
  \<^verbatim>\<open>trim\<close> strips the white space of JavaScript's \<^verbatim>\<open>\s\<close> from both ends; \<^verbatim>\<open>isLength\<close> counts
  a surrogate pair once and a variation selector not at all.
\<close>

definition is_hex :: "nat \<Rightarrow> bool" where
  \<comment> \<open>\<^verbatim>\<open>0-9\<close>, \<^verbatim>\<open>a-f\<close>, \<^verbatim>\<open>A-F\<close>\<close>
  "is_hex c = ((48 \<le> c \<and> c \<le> 57) \<or> (97 \<le> c \<and> c \<le> 102) \<or> (65 \<le> c \<and> c \<le> 70))"

fun hex_run :: "nat \<Rightarrow> jsstring \<Rightarrow> jsstring option" where
  "hex_run 0 s = Some s"
| "hex_run (Suc n) [] = None"
| "hex_run (Suc n) (c # s) = (if is_hex c then hex_run n s else None)"

definition dash :: "jsstring option \<Rightarrow> jsstring option" where
  "dash r = (case r of Some (c # s) \<Rightarrow> (if c = 45 then Some s else None) | _ \<Rightarrow> None)"

definition hex_group :: "nat \<Rightarrow> jsstring option \<Rightarrow> jsstring option" where
  "hex_group n r = (case r of Some s \<Rightarrow> hex_run n s | None \<Rightarrow> None)"

definition isUUID :: "jsstring \<Rightarrow> bool" where
  "isUUID s =
     (hex_group 12 (dash (hex_group 4 (dash (hex_group 4 (dash (hex_group 4 (dash
        (hex_group 8 (Some s))))))))) = Some [])"

definition is_space :: "nat \<Rightarrow> bool" where
  \<comment> \<open>\<^verbatim>\<open>\s\<close>: tab to carriage return, space, U+00A0, U+1680, U+2000 to U+200A, U+2028, U+2029,
      U+202F, U+205F, U+3000, U+FEFF\<close>
  "is_space c =
     ((9 \<le> c \<and> c \<le> 13) \<or> c = 32 \<or> c = 160 \<or> c = 5760 \<or> (8192 \<le> c \<and> c \<le> 8202)
      \<or> c = 8232 \<or> c = 8233 \<or> c = 8239 \<or> c = 8287 \<or> c = 12288 \<or> c = 65279)"

definition trim :: "jsstring \<Rightarrow> jsstring" where
  "trim s = rev (dropWhile is_space (rev (dropWhile is_space s)))"

definition is_high :: "nat \<Rightarrow> bool" where
  "is_high c = (55296 \<le> c \<and> c \<le> 56319)"

definition is_low :: "nat \<Rightarrow> bool" where
  "is_low c = (56320 \<le> c \<and> c \<le> 57343)"

fun surrogate_pairs :: "jsstring \<Rightarrow> nat" where
  "surrogate_pairs (a # b # r) =
     (if is_high a \<and> is_low b then Suc (surrogate_pairs r) else surrogate_pairs (b # r))"
| "surrogate_pairs r = 0"

definition isLength_max :: "nat \<Rightarrow> jsstring \<Rightarrow> bool" where
  \<comment> \<open>\<^verbatim>\<open>isLength({ max })\<close>\<close>
  "isLength_max m s =
     (length s - length (filter (\<lambda>c. c = 65038 \<or> c = 65039) s) - surrogate_pairs s \<le> m)"

definition field :: "(string \<rightharpoonup> jsstring) \<Rightarrow> string \<Rightarrow> jsstring" where
  \<comment> \<open>the value a chain checks: the empty string when the request has no such field\<close>
  "field fs k = (case fs k of None \<Rightarrow> [] | Some v \<Rightarrow> v)"

definition uuidParam :: "(string \<rightharpoonup> jsstring) \<Rightarrow> string list" where
  \<comment> \<open>\<^verbatim>\<open>param('id').isUUID().withMessage('Invalid ID format')\<close>\<close>
  "uuidParam params = (if isUUID (field params ''id'') then [] else [''Invalid ID format''])"

section \<open>Token Service\<close>

text \<open>
  \<^verbatim>\<open>generateToken\<close> (routes/auth.js) signs \<^verbatim>\<open>{userId}\<close> with \<^verbatim>\<open>JWT_SECRET\<close> and the lifetime
  \<^verbatim>\<open>JWT_EXPIRES_IN || '7d'\<close>. \<^verbatim>\<open>jwt.sign\<close> throws when the secret is unset or empty (the
  empty string here). A token is modelled symbolically: its payload together with the key
  that signed it. Times are seconds; a configured lifetime is given in seconds.
\<close>

record env =
  JWT_SECRET :: string
  JWT_EXPIRES_IN :: "nat option"

record token =
  t_userId :: uid
  t_iat :: nat
  t_exp :: nat
  t_signed_with :: string

definition expiresIn :: "env \<Rightarrow> nat" where
  \<comment> \<open>\<^verbatim>\<open>process.env.JWT_EXPIRES_IN || '7d'\<close>, in seconds\<close>
  "expiresIn e = (case JWT_EXPIRES_IN e of Some ttl \<Rightarrow> ttl | None \<Rightarrow> 7 * 24 * 60 * 60)"

definition generateToken :: "env \<Rightarrow> nat \<Rightarrow> uid \<Rightarrow> thrown + token" where
  "generateToken e now userId =
     (if JWT_SECRET e = [] then Inl MissingSecret
      else Inr \<lparr>t_userId = userId, t_iat = now, t_exp = now + expiresIn e,
                t_signed_with = JWT_SECRET e\<rparr>)"

datatype auth_error = InvalidSignature | Expired | Malformed

definition verify :: "env \<Rightarrow> nat \<Rightarrow> token option \<Rightarrow> auth_error + uid" where
  \<comment> \<open>Modelled from the spec: \<^verbatim>\<open>verify\<close> lives in middleware/auth.js, which is not among the
      sources. It checks signature validity and expiry: InvalidSignature if the token was not
      produced by the current signing key, Expired if past expiry, Malformed if not parseable
      (\<open>None\<close> here).\<close>
  "verify e now bearer =
     (case bearer of
        None \<Rightarrow> Inl Malformed
      | Some t \<Rightarrow>
          if t_signed_with t \<noteq> JWT_SECRET e then Inl InvalidSignature
          else if t_exp t \<le> now then Inl Expired
          else Inr (t_userId t))"

text \<open>
  C3. With a signing key configured, \<^verbatim>\<open>generateToken\<close> returns a token for every user
  identifier \<open>u\<close>, and that token, issued at time \<open>t0\<close>, verifies to \<open>u\<close> at every time from
  \<open>t0\<close> up to (not including) its expiry; from the expiry on, verification returns Expired.
  The expiry is \<open>t0\<close> plus the configured \<^verbatim>\<open>JWT_EXPIRES_IN\<close>, and \<open>t0\<close> plus seven days when none
  is configured. The same token signed with any key other than the current signing key is
  rejected with InvalidSignature, at any time.
\<close>

theorem verify_generateToken:
  assumes "JWT_SECRET e \<noteq> []"
  shows "(\<exists>tok. generateToken e t0 u = Inr tok)
     \<and> (\<forall>n. JWT_EXPIRES_IN e = Some n \<longrightarrow>
           (t0 \<le> t \<and> t < t0 + n \<longrightarrow>
              verify e t (Some (projr (generateToken e t0 u))) = Inr u)
           \<and> (t0 + n \<le> t \<longrightarrow>
              verify e t (Some (projr (generateToken e t0 u))) = Inl Expired))
     \<and> (JWT_EXPIRES_IN e = None \<longrightarrow>
           (t0 \<le> t \<and> t < t0 + 604800 \<longrightarrow>
              verify e t (Some (projr (generateToken e t0 u))) = Inr u)
           \<and> (t0 + 604800 \<le> t \<longrightarrow>
              verify e t (Some (projr (generateToken e t0 u))) = Inl Expired))
     \<and> (k \<noteq> JWT_SECRET e \<longrightarrow>
           verify e t (Some ((projr (generateToken e t0 u))\<lparr>t_signed_with := k\<rparr>))
             = Inl InvalidSignature)"
proof (intro conjI allI impI)
  let ?tok = "\<lparr>t_userId = u, t_iat = t0, t_exp = t0 + expiresIn e, t_signed_with = JWT_SECRET e\<rparr>"
  have issued: "generateToken e t0 u = Inr ?tok"
    using assms by (simp add: generateToken_def)
  then show "\<exists>tok. generateToken e t0 u = Inr tok" ..
  have valid: "t < t_exp ?tok \<Longrightarrow> verify e t (Some (projr (generateToken e t0 u))) = Inr u"
    unfolding issued by (simp add: verify_def)
  have expired: "t_exp ?tok \<le> t \<Longrightarrow>
      verify e t (Some (projr (generateToken e t0 u))) = Inl Expired"
    unfolding issued by (simp add: verify_def)
  {
    fix n assume n: "JWT_EXPIRES_IN e = Some n"
    then have exp: "t_exp ?tok = t0 + n"
      by (simp add: expiresIn_def)
    {
      assume "t0 \<le> t \<and> t < t0 + n"
      then show "verify e t (Some (projr (generateToken e t0 u))) = Inr u"
        using valid exp by simp
    }
    {
      assume "t0 + n \<le> t"
      then show "verify e t (Some (projr (generateToken e t0 u))) = Inl Expired"
        using expired exp by simp
    }
  }
  {
    assume "JWT_EXPIRES_IN e = None"
    then have exp: "t_exp ?tok = t0 + 604800"
      by (simp add: expiresIn_def)
    {
      assume "t0 \<le> t \<and> t < t0 + 604800"
      then show "verify e t (Some (projr (generateToken e t0 u))) = Inr u"
        using valid exp by simp
    }
    {
      assume "t0 + 604800 \<le> t"
      then show "verify e t (Some (projr (generateToken e t0 u))) = Inl Expired"
        using expired exp by simp
    }
  }
  {
    assume "k \<noteq> JWT_SECRET e"
    then show "verify e t (Some ((projr (generateToken e t0 u))\<lparr>t_signed_with := k\<rparr>))
             = Inl InvalidSignature"
      unfolding issued by (simp add: verify_def)
  }
qed

definition e0 :: env where
  "e0 = \<lparr>JWT_SECRET = ''k'', JWT_EXPIRES_IN = None\<rparr>"

definition e_hour :: env where
  \<comment> \<open>\<^verbatim>\<open>JWT_EXPIRES_IN=1h\<close>\<close>
  "e_hour = \<lparr>JWT_SECRET = ''k'', JWT_EXPIRES_IN = Some 3600\<rparr>"

theorem verify_generateToken_witness:
  "JWT_SECRET e_hour \<noteq> [] \<and> JWT_SECRET e0 \<noteq> []
   \<and> JWT_EXPIRES_IN e_hour = Some 3600 \<and> JWT_EXPIRES_IN e0 = None
   \<and> verify e_hour 4599 (Some (projr (generateToken e_hour 1000 (js ''alice'')))) = Inr (js ''alice'')
   \<and> verify e_hour 4600 (Some (projr (generateToken e_hour 1000 (js ''alice'')))) = Inl Expired
   \<and> verify e0 605799 (Some (projr (generateToken e0 1000 (js ''alice'')))) = Inr (js ''alice'')
   \<and> verify e0 605800 (Some (projr (generateToken e0 1000 (js ''alice'')))) = Inl Expired
   \<and> verify e0 1000 (Some ((projr (generateToken e0 1000 (js ''alice'')))\<lparr>t_signed_with := ''other''\<rparr>))
        = Inl InvalidSignature"
proof -
  have s: "JWT_SECRET e_hour \<noteq> []" "JWT_SECRET e0 \<noteq> []"
    by (simp_all add: e_hour_def e0_def)
  have h: "JWT_EXPIRES_IN e_hour = Some 3600" "JWT_EXPIRES_IN e0 = None"
    "''other'' \<noteq> JWT_SECRET e0"
    by (simp_all add: e_hour_def e0_def)
  show ?thesis
    using s h
      verify_generateToken [OF s(1), of 1000 "js ''alice''" 4599 "''other''"]
      verify_generateToken [OF s(1), of 1000 "js ''alice''" 4600 "''other''"]
      verify_generateToken [OF s(2), of 1000 "js ''alice''" 605799 "''other''"]
      verify_generateToken [OF s(2), of 1000 "js ''alice''" 605800 "''other''"]
      verify_generateToken [OF s(2), of 1000 "js ''alice''" 1000 "''other''"]
    by simp
qed

section \<open>The relational store\<close>

text \<open>
  The tables the handlers read and write, each a list of rows in insertion order. The schema
  file is not among the sources. Of its constraints the model keeps the primary keys and what
  the specification states: identifiers are UUIDs, username and email are unique, and a user
  has one portfolio. A statement answers with a result or an error, and leaves a store
  behind; faults of the connection are not modelled.
\<close>

record user_row =
  u_id :: uid
  u_name :: jsstring
  u_username :: jsstring
  u_email :: jsstring
  u_password_hash :: jsstring
  u_bio :: jsstring
  u_avatar_url :: jsstring
  u_cover_image_url :: jsstring
  u_created_at :: nat

record portfolio_row =
  p_user_id :: uid
  p_summary :: jsstring
  p_experience :: jsstring
  p_education :: jsstring

record project_row =
  pr_id :: uid
  pr_user_id :: uid
  pr_title :: jsstring
  pr_is_featured :: bool

record message_row =
  m_id :: uid
  m_sender_id :: uid
  m_recipient_id :: uid
  m_message :: jsstring
  m_is_read :: bool
  m_created_at :: nat

record store =
  users :: "user_row list"
  portfolios :: "portfolio_row list"
  user_skills :: "(uid \<times> jsstring) list"
  projects :: "project_row list"
  messages :: "message_row list"

type_synonym 'a stmt = "store \<Rightarrow> (thrown + 'a) \<times> store"

definition ret :: "'a \<Rightarrow> 'a stmt" where
  "ret x st = (Inr x, st)"

definition seq :: "'a stmt \<Rightarrow> ('a \<Rightarrow> 'b stmt) \<Rightarrow> 'b stmt" where
  \<comment> \<open>\<^verbatim>\<open>await\<close> one statement, then go on; a statement that throws ends the callback\<close>
  "seq m k st = (case m st of (Inl e, st') \<Rightarrow> (Inl e, st') | (Inr x, st') \<Rightarrow> k x st')"

definition transaction :: "'a stmt \<Rightarrow> 'a stmt" where
  \<comment> \<open>Modelled from the spec: the \<^verbatim>\<open>transaction\<close> helper of config/database.js is not among
      the sources. All-or-nothing: the callback's writes are committed when it returns, and
      any statement failure rolls back the entire operation and is propagated.\<close>
  "transaction callback st =
     (case callback st of (Inl e, _) \<Rightarrow> (Inl e, st) | (Inr r, st') \<Rightarrow> (Inr r, st'))"

definition bind_param :: "jsstring list \<Rightarrow> nat \<Rightarrow> jsstring option" where
  \<comment> \<open>the value bound to the placeholder \<^verbatim>\<open>$n\<close> of a parameterised statement\<close>
  "bind_param vals n = (if 0 < n \<and> n \<le> length vals then Some (vals ! (n - 1)) else None)"

subsection \<open>What the database does with a parameter\<close>

text \<open>
  The driver sends a parameter as UTF-8, which turns an unpaired surrogate into U+FFFD; the
  database refuses a parameter that holds the character NUL. A parameter compared with or
  stored in a uuid column is read as a UUID: eight groups of four hexadecimal digits in
  either case, a hyphen allowed after any group but the last, the whole optionally in
  braces. Anything else is an error. The database prints a UUID in lower case with hyphens
  after the groups 2, 3, 4 and 5.
\<close>

definition refused :: "jsstring \<Rightarrow> bool" where
  "refused s = (0 \<in> set s)"

fun scrub :: "jsstring \<Rightarrow> jsstring" where
  "scrub (a # b # r) =
     (if is_high a \<and> is_low b then a # b # scrub r
      else if is_high a \<or> is_low a then 65533 # scrub (b # r)
      else a # scrub (b # r))"
| "scrub [a] = (if is_high a \<or> is_low a then [65533] else [a])"
| "scrub [] = []"

definition lower_hex :: "nat \<Rightarrow> nat" where
  "lower_hex c = (if 65 \<le> c \<and> c \<le> 70 then c + 32 else c)"

fun uuid_groups :: "nat \<Rightarrow> jsstring \<Rightarrow> (jsstring \<times> jsstring) option" where
  "uuid_groups 0 s = Some ([], s)"
| "uuid_groups (Suc n) (a # b # c # d # r) =
     (if is_hex a \<and> is_hex b \<and> is_hex c \<and> is_hex d then
        map_option (\<lambda>(ds, rest). (lower_hex a # lower_hex b # lower_hex c # lower_hex d # ds, rest))
          (uuid_groups n (case r of h # r' \<Rightarrow> if h = 45 \<and> 0 < n then r' else r | [] \<Rightarrow> r))
      else None)"
| "uuid_groups (Suc n) s = None"

definition uuid_out :: "jsstring \<Rightarrow> jsstring" where
  "uuid_out ds =
     take 8 ds @ [45] @ take 4 (drop 8 ds) @ [45] @ take 4 (drop 12 ds) @ [45]
       @ take 4 (drop 16 ds) @ [45] @ drop 20 ds"

definition uuid_in :: "jsstring \<Rightarrow> uid option" where
  "uuid_in s =
     (case (case s of c # r \<Rightarrow> if c = 123 then (True, r) else (False, s) | [] \<Rightarrow> (False, s)) of
        (braces, s1) \<Rightarrow>
          (case uuid_groups 8 s1 of
             None \<Rightarrow> None
           | Some (ds, rest) \<Rightarrow>
               if rest = (if braces then [125] else []) then Some (uuid_out ds) else None))"

definition canonical :: "jsstring \<Rightarrow> bool" where
  \<comment> \<open>an identifier as the database prints it\<close>
  "canonical s = (uuid_in s = Some s)"

definition text_in :: "jsstring \<Rightarrow> jsstring option" where
  \<comment> \<open>a parameter for a text column: the text as it is stored\<close>
  "text_in p = (if refused p then None else Some (scrub p))"

definition as_text :: "jsstring \<Rightarrow> (jsstring \<Rightarrow> 'a stmt) \<Rightarrow> 'a stmt" where
  "as_text p k st = (case text_in p of None \<Rightarrow> (Inl InvalidParameter, st) | Some v \<Rightarrow> k v st)"

definition as_uuid :: "jsstring \<Rightarrow> (uid \<Rightarrow> 'a stmt) \<Rightarrow> 'a stmt" where
  \<comment> \<open>Modelled from the spec: the schema is not among the sources; identifiers are UUIDs, so
      a parameter that meets an identifier column is read as one.\<close>
  "as_uuid p k st = (case uuid_in p of None \<Rightarrow> (Inl InvalidParameter, st) | Some u \<Rightarrow> k u st)"

section \<open>Registration (routes/auth.js)\<close>

record register_body =
  r_name :: jsstring
  r_username :: jsstring
  r_email :: jsstring
  r_password :: jsstring

record public_user =
  pu_id :: uid
  pu_name :: jsstring
  pu_username :: jsstring
  pu_email :: jsstring
  pu_avatar_url :: jsstring
  pu_created_at :: nat

text \<open>
  What a request takes from outside the handler: the clock, the identifier the database
  generates for a new row, and bcrypt with its fresh salt.
\<close>

record world =
  now :: nat
  gen_id :: uid
  bcrypt_hash :: "jsstring \<Rightarrow> jsstring"

definition select_existing :: "jsstring \<Rightarrow> jsstring \<Rightarrow> store \<Rightarrow> user_row list" where
  \<comment> \<open>the rows of \<^verbatim>\<open>SELECT id FROM users WHERE email = $1 OR username = $2\<close>\<close>
  "select_existing email username st =
     filter (\<lambda>u. u_email u = email \<or> u_username u = username) (users st)"

definition query_existing :: "jsstring \<Rightarrow> jsstring \<Rightarrow> user_row list stmt" where
  "query_existing email username =
     as_text email (\<lambda>e. as_text username (\<lambda>u st. (Inr (select_existing e u st), st)))"

definition user_texts :: "user_row \<Rightarrow> jsstring list" where
  "user_texts r = [u_name r, u_username r, u_email r, u_password_hash r, u_bio r,
                   u_avatar_url r, u_cover_image_url r]"

definition scrub_user :: "user_row \<Rightarrow> user_row" where
  "scrub_user r =
     r\<lparr>u_name := scrub (u_name r), u_username := scrub (u_username r),
       u_email := scrub (u_email r), u_password_hash := scrub (u_password_hash r),
       u_bio := scrub (u_bio r), u_avatar_url := scrub (u_avatar_url r),
       u_cover_image_url := scrub (u_cover_image_url r)\<rparr>"

definition insert_user :: "user_row \<Rightarrow> user_row stmt" where
  \<comment> \<open>Modelled from the spec: the schema is not among the sources; username and email are
      unique, as is the primary key. \<^verbatim>\<open>INSERT INTO users ... RETURNING ...\<close> with the row's
      texts as parameters, identifier and creation time being the database's; a duplicate
      key is error 23505.\<close>
  "insert_user row st =
     (if list_ex refused (user_texts row) then (Inl InvalidParameter, st)
      else if filter (\<lambda>u. u_id u = u_id row \<or> u_username u = scrub (u_username row)
                          \<or> u_email u = scrub (u_email row)) (users st) \<noteq> []
      then (Inl UniqueViolation, st)
      else (Inr (scrub_user row), st\<lparr>users := users st @ [scrub_user row]\<rparr>))"

definition insert_portfolio :: "jsstring \<Rightarrow> jsstring \<Rightarrow> jsstring \<Rightarrow> jsstring \<Rightarrow> unit stmt" where
  \<comment> \<open>Modelled from the spec: the schema is not among the sources; a portfolio is one-to-one
      with its user. \<^verbatim>\<open>INSERT INTO portfolios (user_id, summary, experience, education)
      VALUES ($1, $2, $3, $4)\<close>.\<close>
  "insert_portfolio user_id summary experience education =
     as_uuid user_id (\<lambda>u. as_text summary (\<lambda>s. as_text experience (\<lambda>x. as_text education
       (\<lambda>d st.
          if filter (\<lambda>p. p_user_id p = u) (portfolios st) \<noteq> [] then (Inl UniqueViolation, st)
          else (Inr (),
                st\<lparr>portfolios := portfolios st
                      @ [\<lparr>p_user_id = u, p_summary = s, p_experience = x, p_education = d\<rparr>]\<rparr>)))))"

definition new_user :: "world \<Rightarrow> register_body \<Rightarrow> user_row" where
  "new_user w b =
     \<lparr>u_id = gen_id w, u_name = r_name b, u_username = r_username b, u_email = r_email b,
      u_password_hash = bcrypt_hash w (r_password b),
      u_bio = js ''Developer passionate about creating amazing projects.'',
      u_avatar_url = js ''https://i.pravatar.cc/150?u='' @ r_username b,
      u_cover_image_url =
        js ''https://images.unsplash.com/photo-1517694712202-14dd9538aa97?w=900'',
      u_created_at = now w\<rparr>"

definition returning_user :: "user_row \<Rightarrow> public_user" where
  \<comment> \<open>\<^verbatim>\<open>RETURNING id, name, username, email, avatar_url, created_at\<close>\<close>
  "returning_user u =
     \<lparr>pu_id = u_id u, pu_name = u_name u, pu_username = u_username u, pu_email = u_email u,
      pu_avatar_url = u_avatar_url u, pu_created_at = u_created_at u\<rparr>"

definition register_tx :: "world \<Rightarrow> register_body \<Rightarrow> public_user stmt" where
  "register_tx w b =
     seq (insert_user (new_user w b)) (\<lambda>row.
     seq (insert_portfolio (u_id row)
            (js ''Professional developer with a passion for building great software.'')
            [] []) (\<lambda>_.
     ret (returning_user row)))"

text \<open>
  The handler awaits the duplicate pre-check, then bcrypt, then the transaction, and signs
  the token last, inside the same \<^verbatim>\<open>try\<close>. Requests served between the pre-check and the
  transaction may have committed writes; \<open>others\<close> is their effect on the store (the identity
  when the request runs alone). The request body is the one the \<^verbatim>\<open>validations.register\<close>
  chain let through.
\<close>

definition register ::
  "env \<Rightarrow> world \<Rightarrow> (store \<Rightarrow> store) \<Rightarrow> register_body \<Rightarrow> store \<Rightarrow> (public_user \<times> token) reply \<times> store"
where
  "register e w others b st =
     (case query_existing (r_email b) (r_username b) st of
        (Inl err, _) \<Rightarrow> (fault ''Error registering user'' err, st)
      | (Inr existingUser, _) \<Rightarrow>
          if existingUser \<noteq> [] then
            (failure 400 ''User with this email or username already exists'', st)
          else
            (case transaction (register_tx w b) (others st) of
               (Inl err, st') \<Rightarrow> (fault ''Error registering user'' err, st')
             | (Inr result, st') \<Rightarrow>
                 (case generateToken e (now w) (pu_id result) of
                    Inl err \<Rightarrow> (fault ''Error registering user'' err, st')
                  | Inr token \<Rightarrow>
                      (ok 201 ''User registered successfully'' (Some (result, token)), st'))))"

section \<open>Messages (routes/messages.js)\<close>

text \<open>
  Every route runs \<^verbatim>\<open>authenticate\<close> first; \<open>caller\<close> is the identity it attached to the
  request. Express binds the path parameters under the names of the route pattern, so the
  parameters of \<^verbatim>\<open>/:userId\<close> hold \<^verbatim>\<open>userId\<close> only, and those of \<^verbatim>\<open>/:messageId\<close> and
  \<^verbatim>\<open>/:messageId/read\<close> hold \<^verbatim>\<open>messageId\<close> only. A handler is one \<^verbatim>\<open>try\<close> block: what a
  statement throws is answered 500, and the statements before it have taken effect.
\<close>

definition attempt :: "string \<Rightarrow> 'd reply stmt \<Rightarrow> store \<Rightarrow> 'd reply \<times> store" where
  \<comment> \<open>\<^verbatim>\<open>try { ... } catch (error) { res.status(500).json(...) }\<close>\<close>
  "attempt msg body st =
     (case body st of (Inl err, st') \<Rightarrow> (fault msg err, st') | (Inr r, st') \<Rightarrow> (r, st'))"

record user_brief =
  ub_id :: uid
  ub_name :: jsstring
  ub_username :: jsstring
  ub_avatar_url :: jsstring

record thread_message =
  tm_id :: uid
  tm_message :: jsstring
  tm_is_read :: bool
  tm_created_at :: nat
  tm_sent_by_me :: bool
  tm_sender :: user_brief

record thread_data =
  td_other_user :: user_brief
  td_messages :: "thread_message list"
  td_limit :: nat
  td_offset :: nat
  td_count :: nat

definition brief :: "user_row \<Rightarrow> user_brief" where
  "brief u = \<lparr>ub_id = u_id u, ub_name = u_name u, ub_username = u_username u,
              ub_avatar_url = u_avatar_url u\<rparr>"

definition select_user :: "jsstring \<Rightarrow> user_row list stmt" where
  \<comment> \<open>\<^verbatim>\<open>SELECT ... FROM users WHERE id = $1\<close>\<close>
  "select_user userId = as_uuid userId (\<lambda>u st. (Inr (filter (\<lambda>r. u_id r = u) (users st)), st))"

subsection \<open>GET /:userId, the thread with one user\<close>

definition select_thread ::
  "jsstring \<Rightarrow> jsstring \<Rightarrow> nat \<Rightarrow> nat \<Rightarrow> (message_row \<times> user_row) list stmt" where
  \<comment> \<open>the thread query: messages between the two, joined with their senders, oldest first
      (equal times in insertion order), then \<^verbatim>\<open>LIMIT\<close> and \<^verbatim>\<open>OFFSET\<close>\<close>
  "select_thread caller userId lim off =
     as_uuid caller (\<lambda>me. as_uuid userId (\<lambda>other st.
       (Inr (take lim (drop off
          (concat (map (\<lambda>m. map (Pair m) (filter (\<lambda>s. u_id s = m_sender_id m) (users st)))
             (sort_key m_created_at
                (filter (\<lambda>m. (m_sender_id m = me \<and> m_recipient_id m = other)
                            \<or> (m_sender_id m = other \<and> m_recipient_id m = me))
                   (messages st))))))),
        st)))"

definition mark_thread_read :: "jsstring \<Rightarrow> jsstring \<Rightarrow> unit stmt" where
  \<comment> \<open>\<^verbatim>\<open>UPDATE messages SET is_read = true
       WHERE recipient_id = $1 AND sender_id = $2 AND is_read = false\<close>\<close>
  "mark_thread_read caller userId =
     as_uuid caller (\<lambda>me. as_uuid userId (\<lambda>other st.
       (Inr (),
        st\<lparr>messages :=
             map (\<lambda>m. if m_recipient_id m = me \<and> m_sender_id m = other \<and> m_is_read m = False
                       then m\<lparr>m_is_read := True\<rparr> else m)
               (messages st)\<rparr>)))"

definition thread_row :: "uid \<Rightarrow> message_row \<times> user_row \<Rightarrow> thread_message" where
  \<comment> \<open>\<^verbatim>\<open>sent_by_me: row.sender_id === req.user.id\<close>\<close>
  "thread_row caller row =
     (case row of (m, s) \<Rightarrow>
        \<lparr>tm_id = m_id m, tm_message = m_message m, tm_is_read = m_is_read m,
         tm_created_at = m_created_at m, tm_sent_by_me = (m_sender_id m = caller),
         tm_sender = brief s\<rparr>)"

definition get_messages ::
  "uid \<Rightarrow> jsstring \<Rightarrow> nat option \<Rightarrow> nat option \<Rightarrow> store \<Rightarrow> thread_data reply \<times> store" where
  "get_messages caller userId limit offset =
     attempt ''Error fetching messages''
       (seq (select_user userId) (\<lambda>userCheck.
          case userCheck of
            [] \<Rightarrow> ret (failure 404 ''User not found'')
          | other # _ \<Rightarrow>
              seq (select_thread caller userId
                     (case limit of None \<Rightarrow> 50 | Some l \<Rightarrow> l)
                     (case offset of None \<Rightarrow> 0 | Some k \<Rightarrow> k)) (\<lambda>rows.
              seq (mark_thread_read caller userId) (\<lambda>_.
              ret (ok 200 []
                     (Some \<lparr>td_other_user = brief other,
                            td_messages = map (thread_row caller) rows,
                            td_limit = (case limit of None \<Rightarrow> 50 | Some l \<Rightarrow> l),
                            td_offset = (case offset of None \<Rightarrow> 0 | Some k \<Rightarrow> k),
                            td_count = length rows\<rparr>))))))"

definition get_messages_route ::
  "uid \<Rightarrow> jsstring \<Rightarrow> nat option \<Rightarrow> nat option \<Rightarrow> store \<Rightarrow> thread_data reply \<times> store" where
  \<comment> \<open>\<^verbatim>\<open>router.get('/:userId', authenticate, validations.uuidParam, ...)\<close>\<close>
  "get_messages_route caller userId limit offset st =
     (case validate (uuidParam [''userId'' \<mapsto> userId]) of
        Some rejected \<Rightarrow> (rejected, st)
      | None \<Rightarrow> get_messages caller userId limit offset st)"

subsection \<open>POST /, sending a message\<close>

definition sendMessage :: "(string \<rightharpoonup> jsstring) \<Rightarrow> string list" where
  \<comment> \<open>the \<^verbatim>\<open>validations.sendMessage\<close> chains on \<^verbatim>\<open>recipient_id\<close> and \<^verbatim>\<open>message\<close>\<close>
  "sendMessage body =
     (if field body ''recipient_id'' = [] then [''Recipient ID is required''] else [])
     @ (if isUUID (field body ''recipient_id'') then [] else [''Invalid recipient ID''])
     @ (if trim (field body ''message'') = [] then [''Message cannot be empty''] else [])
     @ (if isLength_max 5000 (trim (field body ''message'')) then []
        else [''Message must be less than 5000 characters''])"

definition insert_message ::
  "world \<Rightarrow> jsstring \<Rightarrow> jsstring \<Rightarrow> jsstring \<Rightarrow> message_row stmt" where
  \<comment> \<open>\<^verbatim>\<open>INSERT INTO messages (sender_id, recipient_id, message) VALUES ($1, $2, $3)
       RETURNING id, sender_id, recipient_id, message, is_read, created_at\<close>; the identifier,
      the unread flag and the creation time are the database's\<close>
  "insert_message w sender_id recipient_id msg =
     as_uuid sender_id (\<lambda>s. as_uuid recipient_id (\<lambda>r. as_text msg (\<lambda>m st.
       if filter (\<lambda>x. m_id x = gen_id w) (messages st) \<noteq> [] then (Inl UniqueViolation, st)
       else
         (Inr \<lparr>m_id = gen_id w, m_sender_id = s, m_recipient_id = r, m_message = m,
                m_is_read = False, m_created_at = now w\<rparr>,
          st\<lparr>messages := messages st
                @ [\<lparr>m_id = gen_id w, m_sender_id = s, m_recipient_id = r, m_message = m,
                    m_is_read = False, m_created_at = now w\<rparr>]\<rparr>))))"

definition send_message ::
  "world \<Rightarrow> uid \<Rightarrow> jsstring \<Rightarrow> jsstring \<Rightarrow> store \<Rightarrow> message_row reply \<times> store" where
  "send_message w caller recipient_id msg =
     attempt ''Error sending message''
       (seq (select_user recipient_id) (\<lambda>recipientCheck.
          if recipientCheck = [] then ret (failure 404 ''Recipient not found'')
          else if recipient_id = caller then ret (failure 400 ''Cannot send message to yourself'')
          else
            seq (insert_message w caller recipient_id msg) (\<lambda>row.
            ret (ok 201 ''Message sent successfully'' (Some row)))))"

definition send_message_route ::
  "world \<Rightarrow> uid \<Rightarrow> (string \<rightharpoonup> jsstring) \<Rightarrow> store \<Rightarrow> message_row reply \<times> store" where
  \<comment> \<open>\<^verbatim>\<open>router.post('/', authenticate, validations.sendMessage, ...)\<close>; the handler reads the
      body as the chains left it, the message trimmed\<close>
  "send_message_route w caller body st =
     (case validate (sendMessage body) of
        Some rejected \<Rightarrow> (rejected, st)
      | None \<Rightarrow>
          send_message w caller (field body ''recipient_id'') (trim (field body ''message'')) st)"

subsection \<open>PUT /:messageId/read and DELETE /:messageId\<close>

definition update_read :: "jsstring \<Rightarrow> jsstring \<Rightarrow> (uid \<times> bool) list stmt" where
  \<comment> \<open>\<^verbatim>\<open>UPDATE messages SET is_read = true WHERE id = $1 AND recipient_id = $2
       RETURNING id, is_read\<close>\<close>
  "update_read messageId caller =
     as_uuid messageId (\<lambda>i. as_uuid caller (\<lambda>c st.
       (Inr (map (\<lambda>m. (m_id m, True))
               (filter (\<lambda>m. m_id m = i \<and> m_recipient_id m = c) (messages st))),
        st\<lparr>messages :=
             map (\<lambda>m. if m_id m = i \<and> m_recipient_id m = c then m\<lparr>m_is_read := True\<rparr> else m)
               (messages st)\<rparr>)))"

definition mark_read :: "uid \<Rightarrow> jsstring \<Rightarrow> store \<Rightarrow> (uid \<times> bool) reply \<times> store" where
  "mark_read caller messageId =
     attempt ''Error marking message as read''
       (seq (update_read messageId caller) (\<lambda>rows.
          case rows of
            [] \<Rightarrow> ret (failure 404 ''Message not found or not authorized'')
          | row # _ \<Rightarrow> ret (ok 200 ''Message marked as read'' (Some row))))"

definition mark_read_route :: "uid \<Rightarrow> jsstring \<Rightarrow> store \<Rightarrow> (uid \<times> bool) reply \<times> store" where
  \<comment> \<open>\<^verbatim>\<open>router.put('/:messageId/read', authenticate, validations.uuidParam, ...)\<close>\<close>
  "mark_read_route caller messageId st =
     (case validate (uuidParam [''messageId'' \<mapsto> messageId]) of
        Some rejected \<Rightarrow> (rejected, st)
      | None \<Rightarrow> mark_read caller messageId st)"

definition delete_from_messages :: "jsstring \<Rightarrow> jsstring \<Rightarrow> uid list stmt" where
  \<comment> \<open>\<^verbatim>\<open>DELETE FROM messages WHERE id = $1 AND sender_id = $2 RETURNING id\<close>\<close>
  "delete_from_messages messageId caller =
     as_uuid messageId (\<lambda>i. as_uuid caller (\<lambda>c st.
       (Inr (map m_id (filter (\<lambda>m. m_id m = i \<and> m_sender_id m = c) (messages st))),
        st\<lparr>messages := filter (\<lambda>m. \<not> (m_id m = i \<and> m_sender_id m = c)) (messages st)\<rparr>)))"

definition delete_message :: "uid \<Rightarrow> jsstring \<Rightarrow> store \<Rightarrow> unit reply \<times> store" where
  "delete_message caller messageId =
     attempt ''Error deleting message''
       (seq (delete_from_messages messageId caller) (\<lambda>rows.
          case rows of
            [] \<Rightarrow> ret (failure 404 ''Message not found or not authorized to delete'')
          | _ # _ \<Rightarrow> ret (ok 200 ''Message deleted successfully'' None)))"

definition delete_message_route :: "uid \<Rightarrow> jsstring \<Rightarrow> store \<Rightarrow> unit reply \<times> store" where
  \<comment> \<open>\<^verbatim>\<open>router.delete('/:messageId', authenticate, validations.uuidParam, ...)\<close>\<close>
  "delete_message_route caller messageId st =
     (case validate (uuidParam [''messageId'' \<mapsto> messageId]) of
        Some rejected \<Rightarrow> (rejected, st)
      | None \<Rightarrow> delete_message caller messageId st)"

section \<open>Portfolio and skill updates (routes/portfolios.js, routes/users.js)\<close>

text \<open>
  A field of the request body that holds a list is absent (\<^verbatim>\<open>undefined\<close>), something that
  is not an array, or an array of strings. A text field is absent or a string.
\<close>

datatype 'a jsfield = Undefined | NonArray | Array "'a list"

record portfolio_body =
  b_summary :: "jsstring option"
  b_experience :: "jsstring option"
  b_education :: "jsstring option"
  b_skills :: "jsstring jsfield"
  b_featured_projects :: "jsstring jsfield"

definition updatePortfolio :: "portfolio_body \<Rightarrow> string list" where
  \<comment> \<open>the \<^verbatim>\<open>validations.updatePortfolio\<close> chains that can fail: the two \<^verbatim>\<open>optional().isArray()\<close>\<close>
  "updatePortfolio b =
     (if b_skills b = NonArray then [''Skills must be an array''] else [])
     @ (if b_featured_projects b = NonArray then [''Featured projects must be an array'']
        else [])"

definition trimmed :: "portfolio_body \<Rightarrow> portfolio_body" where
  \<comment> \<open>the three \<^verbatim>\<open>optional().trim()\<close> chains rewrite the text fields that are present\<close>
  "trimmed b =
     b\<lparr>b_summary := map_option trim (b_summary b),
       b_experience := map_option trim (b_experience b),
       b_education := map_option trim (b_education b)\<rparr>"

subsection \<open>The statements\<close>

datatype column = Summary | Experience | Education

definition set_column :: "column \<times> jsstring \<Rightarrow> portfolio_row \<Rightarrow> portfolio_row" where
  "set_column a p =
     (case a of
        (Summary, v) \<Rightarrow> p\<lparr>p_summary := v\<rparr>
      | (Experience, v) \<Rightarrow> p\<lparr>p_experience := v\<rparr>
      | (Education, v) \<Rightarrow> p\<lparr>p_education := v\<rparr>)"

definition update_portfolios :: "(column \<times> nat) list \<Rightarrow> nat \<Rightarrow> jsstring list \<Rightarrow> unit stmt" where
  \<comment> \<open>\<^verbatim>\<open>UPDATE portfolios SET c1 = $n1, ... WHERE user_id = $k\<close> with its values: a placeholder
      without a value is a bind error; the values set are texts, the one compared is an
      identifier\<close>
  "update_portfolios updates k vals st =
     (case (those (map (\<lambda>(c, n). map_option (Pair c) (bind_param vals n)) updates),
            bind_param vals k) of
        (Some sets, Some user_id) \<Rightarrow>
          (case (those (map (\<lambda>(c, v). map_option (Pair c) (text_in v)) sets),
                 uuid_in user_id) of
             (Some texts, Some u) \<Rightarrow>
               (Inr (),
                st\<lparr>portfolios :=
                     map (\<lambda>p. if p_user_id p = u then fold set_column texts p else p)
                       (portfolios st)\<rparr>)
           | _ \<Rightarrow> (Inl InvalidParameter, st))
      | _ \<Rightarrow> (Inl BindError, st))"

definition delete_user_skills :: "jsstring \<Rightarrow> unit stmt" where
  \<comment> \<open>\<^verbatim>\<open>DELETE FROM user_skills WHERE user_id = $1\<close>\<close>
  "delete_user_skills user_id =
     as_uuid user_id (\<lambda>u st.
       (Inr (), st\<lparr>user_skills := filter (\<lambda>r. fst r \<noteq> u) (user_skills st)\<rparr>))"

definition insert_user_skills :: "(nat \<times> nat) list \<Rightarrow> jsstring list \<Rightarrow> unit stmt" where
  \<comment> \<open>\<^verbatim>\<open>INSERT INTO user_skills (user_id, skill) VALUES ($a1, $b1), ...\<close> with its values\<close>
  "insert_user_skills tuples vals st =
     (case those (map (\<lambda>(a, b).
                    case (bind_param vals a, bind_param vals b) of
                      (Some user_id, Some skill) \<Rightarrow> Some (user_id, skill)
                    | _ \<Rightarrow> None) tuples) of
        Some sent \<Rightarrow>
          (case those (map (\<lambda>(user_id, skill).
                         case (uuid_in user_id, text_in skill) of
                           (Some u, Some t) \<Rightarrow> Some (u, t)
                         | _ \<Rightarrow> None) sent) of
             Some rows \<Rightarrow> (Inr (), st\<lparr>user_skills := user_skills st @ rows\<rparr>)
           | None \<Rightarrow> (Inl InvalidParameter, st))
      | None \<Rightarrow> (Inl BindError, st))"

definition unfeature_projects :: "jsstring \<Rightarrow> unit stmt" where
  \<comment> \<open>\<^verbatim>\<open>UPDATE projects SET is_featured = false WHERE user_id = $1\<close>\<close>
  "unfeature_projects user_id =
     as_uuid user_id (\<lambda>u st.
       (Inr (),
        st\<lparr>projects :=
             map (\<lambda>p. if pr_user_id p = u then p\<lparr>pr_is_featured := False\<rparr> else p)
               (projects st)\<rparr>))"

definition feature_projects :: "nat list \<Rightarrow> jsstring list \<Rightarrow> unit stmt" where
  \<comment> \<open>\<^verbatim>\<open>UPDATE projects SET is_featured = true WHERE user_id = $1 AND id IN ($n1, ...)\<close>\<close>
  "feature_projects projectIds vals st =
     (case (bind_param vals 1, those (map (bind_param vals) projectIds)) of
        (Some user_id, Some sent) \<Rightarrow>
          (case (uuid_in user_id, those (map uuid_in sent)) of
             (Some u, Some ids) \<Rightarrow>
               (Inr (),
                st\<lparr>projects :=
                     map (\<lambda>p. if pr_user_id p = u \<and> pr_id p \<in> set ids
                               then p\<lparr>pr_is_featured := True\<rparr> else p) (projects st)\<rparr>)
           | _ \<Rightarrow> (Inl InvalidParameter, st))
      | _ \<Rightarrow> (Inl BindError, st))"

definition select_portfolio :: "jsstring \<Rightarrow> (portfolio_row \<times> jsstring list) list stmt" where
  \<comment> \<open>the portfolio with \<^verbatim>\<open>array_agg(DISTINCT us.skill)\<close>, one row per portfolio of the user\<close>
  "select_portfolio user_id =
     as_uuid user_id (\<lambda>u st.
       (Inr (map (\<lambda>p. (p, remdups (map snd (filter (\<lambda>r. fst r = u) (user_skills st)))))
               (filter (\<lambda>p. p_user_id p = u) (portfolios st))),
        st))"

subsection \<open>PUT /api/portfolios\<close>

definition push_update ::
  "column \<Rightarrow> jsstring option \<Rightarrow> (column \<times> nat) list \<times> jsstring list \<times> nat
     \<Rightarrow> (column \<times> nat) list \<times> jsstring list \<times> nat" where
  \<comment> \<open>\<^verbatim>\<open>if (v !== undefined) { updates.push(`c = $${paramCount}`); values.push(v); paramCount++; }\<close>\<close>
  "push_update c v acc =
     (case acc of (updates, vals, paramCount) \<Rightarrow>
        (case v of
           None \<Rightarrow> (updates, vals, paramCount)
         | Some x \<Rightarrow> (updates @ [(c, paramCount)], vals @ [x], paramCount + 1)))"

definition replace_skills :: "uid \<Rightarrow> jsstring list \<Rightarrow> unit stmt" where
  \<comment> \<open>delete the caller's skills, then insert the given ones; the same statements in
      PUT /api/portfolios and in PUT /api/users/skills\<close>
  "replace_skills caller skills =
     seq (delete_user_skills caller) (\<lambda>_.
       if length skills > 0 then
         insert_user_skills (map (\<lambda>index. (1, index + 2)) [0..<length skills]) (caller # skills)
       else ret ())"

definition replace_featured :: "uid \<Rightarrow> jsstring list \<Rightarrow> unit stmt" where
  "replace_featured caller featured_projects =
     seq (unfeature_projects caller) (\<lambda>_.
       if length featured_projects > 0 then
         feature_projects (map (\<lambda>index. index + 2) [0..<length featured_projects])
           (caller # featured_projects)
       else ret ())"

definition put_portfolio_tx :: "uid \<Rightarrow> portfolio_body \<Rightarrow> unit stmt" where
  "put_portfolio_tx caller b =
     (case push_update Education (b_education b)
             (push_update Experience (b_experience b)
                (push_update Summary (b_summary b) ([], [], 1))) of
        (updates, vals, paramCount) \<Rightarrow>
          seq (if length updates > 0
               then update_portfolios updates paramCount (vals @ [caller]) else ret ()) (\<lambda>_.
          seq (case b_skills b of
                 Array skills \<Rightarrow> replace_skills caller skills
               | _ \<Rightarrow> ret ()) (\<lambda>_.
              (case b_featured_projects b of
                 Array featured_projects \<Rightarrow> replace_featured caller featured_projects
               | _ \<Rightarrow> ret ()))))"

definition put_portfolio ::
  "uid \<Rightarrow> portfolio_body \<Rightarrow> store \<Rightarrow> (portfolio_row \<times> jsstring list) reply \<times> store" where
  "put_portfolio caller b =
     attempt ''Error updating portfolio''
       (seq (transaction (put_portfolio_tx caller b)) (\<lambda>_.
        seq (select_portfolio caller) (\<lambda>rows.
        ret (ok 200 ''Portfolio updated successfully''
               (case rows of [] \<Rightarrow> None | row # _ \<Rightarrow> Some row)))))"

definition put_portfolio_route ::
  "uid \<Rightarrow> portfolio_body \<Rightarrow> store \<Rightarrow> (portfolio_row \<times> jsstring list) reply \<times> store" where
  \<comment> \<open>\<^verbatim>\<open>router.put('/', authenticate, validations.updatePortfolio, ...)\<close>\<close>
  "put_portfolio_route caller b st =
     (case validate (updatePortfolio b) of
        Some rejected \<Rightarrow> (rejected, st)
      | None \<Rightarrow> put_portfolio caller (trimmed b) st)"

subsection \<open>PUT /api/users/skills\<close>

definition put_skills :: "uid \<Rightarrow> jsstring jsfield \<Rightarrow> store \<Rightarrow> jsstring list reply \<times> store" where
  "put_skills caller skills st =
     (case skills of
        Array sk \<Rightarrow>
          attempt ''Error updating skills''
            (seq (transaction (replace_skills caller sk)) (\<lambda>_.
             ret (ok 200 ''Skills updated successfully'' (Some sk)))) st
      | _ \<Rightarrow> (failure 400 ''Skills must be an array'', st))"

subsection \<open>The parameters of a portfolio update\<close>


definition featured_ids :: "portfolio_body \<Rightarrow> jsstring list" where
  \<comment> \<open>the identifiers a body makes the transaction send\<close>
  "featured_ids b = (case b_featured_projects b of Array featured_projects \<Rightarrow> featured_projects
                     | _ \<Rightarrow> [])"

section \<open>Strings and parameters: facts\<close>

lemma js_eq_iff [simp]: "js a = js b \<longleftrightarrow> a = b"
  by (simp add: js_def inj_map_eq_map inj_of_char)

lemma js_append: "js a @ js b = js (a @ b)"
  by (simp add: js_def)

lemma scrub_plain: "list_all (\<lambda>c. \<not> is_high c \<and> \<not> is_low c) s \<Longrightarrow> scrub s = s"
proof (induction s rule: scrub.induct)
  case (1 a b r)
  then show ?case by simp
next
  case (2 a)
  then show ?case by simp
next
  case 3
  show ?case by simp
qed

lemma js_plain: "list_all (\<lambda>c. \<not> is_high c \<and> \<not> is_low c) (js s)"
proof -
  have "\<not> is_high (of_char c) \<and> \<not> is_low (of_char c)" for c
  proof -
    have "of_char c < (256::nat)"
      by simp
    then show ?thesis
      unfolding is_high_def is_low_def by linarith
  qed
  then show ?thesis
    by (simp add: js_def list_all_iff)
qed

lemma scrub_js [simp]: "scrub (js s) = js s"
  by (rule scrub_plain) (rule js_plain)

lemma refused_js [simp]: "refused (js s) \<longleftrightarrow> CHR 0x00 \<in> set s"
proof -
  have z: "of_char (CHR 0x00) = (0::nat)"
    by simp
  have "(0::nat) = of_char c \<longleftrightarrow> c = CHR 0x00" for c
  proof
    assume "(0::nat) = of_char c"
    then have "(of_char c :: nat) = of_char (CHR 0x00)"
      by (simp only: z)
    then show "c = CHR 0x00"
      by (simp only: of_char_eq_iff)
  next
    assume "c = CHR 0x00"
    then show "(0::nat) = of_char c"
      by simp
  qed
  then have "(\<exists>c \<in> set s. (0::nat) = of_char c) = (\<exists>c \<in> set s. c = CHR 0x00)"
    by (simp only:)
  moreover have "((0::nat) \<in> set (map of_char s)) = (\<exists>c \<in> set s. (0::nat) = of_char c)"
    by (simp only: set_map image_iff)
  moreover have "(\<exists>c \<in> set s. c = CHR 0x00) = (CHR 0x00 \<in> set s)"
    by blast
  ultimately show ?thesis
    by (simp only: refused_def js_def)
qed

lemma refused_Nil [simp]: "\<not> refused []"
  by (simp add: refused_def)

lemma refused_append [simp]: "refused (a @ b) \<longleftrightarrow> refused a \<or> refused b"
  by (auto simp add: refused_def)

section \<open>Registration: the claims\<close>

subsection \<open>Sample data\<close>

definition w0 :: world where
  "w0 = \<lparr>now = 1000, gen_id = js ''b0000000-0000-4000-8000-000000000002'',
          bcrypt_hash = (\<lambda>p. js ''$2a$10$'' @ p)\<rparr>"

definition alice :: user_row where
  "alice = \<lparr>u_id = js ''a0000000-0000-4000-8000-000000000001'', u_name = js ''Alice'',
     u_username = js ''alice'', u_email = js ''alice@example.com'', u_password_hash = js ''h1'',
     u_bio = [], u_avatar_url = [], u_cover_image_url = [], u_created_at = 1\<rparr>"

definition default_portfolio :: "uid \<Rightarrow> portfolio_row" where
  \<comment> \<open>the portfolio row registration writes for a user\<close>
  "default_portfolio u =
     \<lparr>p_user_id = u,
      p_summary = js ''Professional developer with a passion for building great software.'',
      p_experience = [], p_education = []\<rparr>"

definition empty_store :: store where
  "empty_store = \<lparr>users = [], portfolios = [], user_skills = [], projects = [], messages = []\<rparr>"

definition st_alice :: store where
  "st_alice = \<lparr>users = [alice], portfolios = [default_portfolio (u_id alice)], user_skills = [],
     projects = [], messages = []\<rparr>"

definition alice_again :: register_body where
  \<comment> \<open>alice's email under another username\<close>
  "alice_again = \<lparr>r_name = js ''Alice B'', r_username = js ''alice2'',
     r_email = js ''alice@example.com'', r_password = js ''secret1''\<rparr>"

definition alice_registers :: "store \<Rightarrow> store" where
  \<comment> \<open>a concurrent registration of alice that commits\<close>
  "alice_registers st = st\<lparr>users := users st @ [alice],
     portfolios := portfolios st @ [default_portfolio (u_id alice)]\<rparr>"

definition bob_body :: register_body where
  "bob_body = \<lparr>r_name = js ''Bob'', r_username = js ''bob'', r_email = js ''bob@example.com'',
     r_password = js ''hunter22''\<rparr>"

definition st_orphan :: store where
  \<comment> \<open>a portfolio row is already there under the identifier the next user will get\<close>
  "st_orphan = st_alice\<lparr>portfolios := portfolios st_alice @ [default_portfolio (gen_id w0)]\<rparr>"

lemma as_uuid_canonical: "canonical s \<Longrightarrow> as_uuid s k st = k s st"
  by (simp add: as_uuid_def canonical_def)

lemma as_text_accepted: "\<not> refused p \<Longrightarrow> as_text p k st = k (scrub p) st"
  by (simp add: as_text_def text_in_def)

lemma as_text_refused: "refused p \<Longrightarrow> as_text p k st = (Inl InvalidParameter, st)"
  by (simp add: as_text_def text_in_def)

lemma canonical_w0: "canonical (gen_id w0)"
  unfolding canonical_def w0_def by code_simp

lemma canonical_alice: "canonical (u_id alice)"
  unfolding canonical_def alice_def by code_simp

subsection \<open>The handler\<close>

lemma transaction_cases:
  "(\<exists>err. transaction c st = (Inl err, st))
   \<or> (\<exists>r st'. c st = (Inr r, st') \<and> transaction c st = (Inr r, st'))"
  by (cases "c st" rule: prod.exhaust; cases "fst (c st)") (auto simp add: transaction_def)

lemma insert_portfolio_default:
  assumes "canonical u"
  shows "insert_portfolio u
           (js ''Professional developer with a passion for building great software.'') [] [] st
         = (if filter (\<lambda>p. p_user_id p = u) (portfolios st) \<noteq> [] then (Inl UniqueViolation, st)
            else (Inr (), st\<lparr>portfolios := portfolios st @ [default_portfolio u]\<rparr>))"
  using assms
  by (simp add: insert_portfolio_def as_uuid_canonical as_text_accepted default_portfolio_def)

lemma register_tx_cases:
  assumes "canonical (gen_id w)"
  shows "(\<exists>err st1. register_tx w b st = (Inl err, st1))
   \<or> register_tx w b st =
        (Inr (returning_user (scrub_user (new_user w b))),
         st\<lparr>users := users st @ [scrub_user (new_user w b)],
            portfolios := portfolios st @ [default_portfolio (gen_id w)]\<rparr>)"
proof -
  have id: "u_id (scrub_user (new_user w b)) = gen_id w"
    by (simp add: scrub_user_def new_user_def)
  show ?thesis
    unfolding register_tx_def seq_def
    by (simp add: insert_user_def insert_portfolio_default id assms ret_def)
qed

lemma transaction_register_tx:
  assumes "canonical (gen_id w)"
  shows "(\<exists>err. transaction (register_tx w b) st = (Inl err, st))
   \<or> transaction (register_tx w b) st =
        (Inr (returning_user (scrub_user (new_user w b))),
         st\<lparr>users := users st @ [scrub_user (new_user w b)],
            portfolios := portfolios st @ [default_portfolio (gen_id w)]\<rparr>)"
  using register_tx_cases [OF assms, of b st]
  by (auto simp add: transaction_def)

lemma register_precheck:
  assumes "\<not> refused (r_email b)" and "\<not> refused (r_username b)"
    and "select_existing (scrub (r_email b)) (scrub (r_username b)) st \<noteq> []"
  shows "register e w others b st =
       (failure 400 ''User with this email or username already exists'', st)"
  using assms by (simp add: register_def query_existing_def as_text_accepted)

text \<open>
  C2. Registration is atomic: the user row and its portfolio row are written together or
  not at all. Whatever the request, the store it finds and the writes committed by others
  in between, the handler ends in one of three ways. Nothing is written: the store is the
  one it found, and the answer is 400 (the pre-check found a duplicate) or 500 (the database
  refused the pre-check). The transaction fails: the answer is 500 and the store is the one
  the transaction started from, with neither row. The transaction commits: the store has
  gained exactly the user row and the portfolio row of that user's identifier, and the
  answer is 201, or 500 when signing the token throws, which only an empty
  \<^verbatim>\<open>JWT_SECRET\<close> causes. In particular a request whose email already belongs to a user,
  under whatever username, is answered 400 with the duplicate-user message and leaves the
  store as it was. The identifier the database generates is one it prints.
\<close>

theorem register_atomic:
  assumes "canonical (gen_id w)"
  shows
  "((snd (register e w others b st) = st
       \<and> (status (fst (register e w others b st)) = 400
            \<or> status (fst (register e w others b st)) = 500))
    \<or> (snd (register e w others b st) = others st
        \<and> status (fst (register e w others b st)) = 500)
    \<or> (snd (register e w others b st) =
          (others st)\<lparr>users := users (others st) @ [scrub_user (new_user w b)],
                      portfolios := portfolios (others st)
                        @ [\<lparr>p_user_id = gen_id w,
                            p_summary = js ''Professional developer with a passion for building great software.'',
                            p_experience = [], p_education = []\<rparr>]\<rparr>
        \<and> u_id (scrub_user (new_user w b)) = gen_id w
        \<and> u_username (scrub_user (new_user w b)) = scrub (r_username b)
        \<and> u_email (scrub_user (new_user w b)) = scrub (r_email b)
        \<and> (status (fst (register e w others b st)) = 201
             \<or> (status (fst (register e w others b st)) = 500 \<and> JWT_SECRET e = []))))
   \<and> (\<not> refused (r_email b) \<and> \<not> refused (r_username b)
        \<and> filter (\<lambda>u. u_email u = scrub (r_email b)) (users st) \<noteq> [] \<longrightarrow>
        register e w others b st =
          (failure 400 ''User with this email or username already exists'', st))"
proof (intro conjI impI)
  let ?R = "register e w others b st"
  have fields: "u_id (scrub_user (new_user w b)) = gen_id w"
    "u_username (scrub_user (new_user w b)) = scrub (r_username b)"
    "u_email (scrub_user (new_user w b)) = scrub (r_email b)"
    by (simp_all add: scrub_user_def new_user_def)
  show "(snd ?R = st \<and> (status (fst ?R) = 400 \<or> status (fst ?R) = 500))
    \<or> (snd ?R = others st \<and> status (fst ?R) = 500)
    \<or> (snd ?R =
          (others st)\<lparr>users := users (others st) @ [scrub_user (new_user w b)],
                      portfolios := portfolios (others st)
                        @ [\<lparr>p_user_id = gen_id w,
                            p_summary = js ''Professional developer with a passion for building great software.'',
                            p_experience = [], p_education = []\<rparr>]\<rparr>
        \<and> u_id (scrub_user (new_user w b)) = gen_id w
        \<and> u_username (scrub_user (new_user w b)) = scrub (r_username b)
        \<and> u_email (scrub_user (new_user w b)) = scrub (r_email b)
        \<and> (status (fst ?R) = 201 \<or> (status (fst ?R) = 500 \<and> JWT_SECRET e = [])))"
  proof (cases "query_existing (r_email b) (r_username b) st")
    case (Pair res st0)
    show ?thesis
    proof (cases res)
      case (Inl err)
      with Pair show ?thesis
        by (simp add: register_def fault_def)
    next
      case (Inr existingUser)
      show ?thesis
      proof (cases "existingUser = []")
        case False
        with Pair Inr show ?thesis
          by (simp add: register_def failure_def)
      next
        case True
        from transaction_register_tx [OF assms, of b "others st"]
        show ?thesis
        proof
          assume "\<exists>err. transaction (register_tx w b) (others st) = (Inl err, others st)"
          with Pair Inr True show ?thesis
            by (auto simp add: register_def fault_def)
        next
          assume committed: "transaction (register_tx w b) (others st) =
            (Inr (returning_user (scrub_user (new_user w b))),
             (others st)\<lparr>users := users (others st) @ [scrub_user (new_user w b)],
                portfolios := portfolios (others st) @ [default_portfolio (gen_id w)]\<rparr>)"
          show ?thesis
          proof (cases "JWT_SECRET e = []")
            case True
            with Pair Inr \<open>existingUser = []\<close> committed fields show ?thesis
              by (simp add: register_def generateToken_def fault_def default_portfolio_def)
          next
            case False
            with Pair Inr \<open>existingUser = []\<close> committed fields show ?thesis
              by (simp add: register_def generateToken_def ok_def default_portfolio_def)
          qed
        qed
      qed
    qed
  qed
next
  assume a: "\<not> refused (r_email b) \<and> \<not> refused (r_username b)
        \<and> filter (\<lambda>u. u_email u = scrub (r_email b)) (users st) \<noteq> []"
  then obtain u where "u \<in> set (users st)" and "u_email u = scrub (r_email b)"
    by (auto simp add: filter_empty_conv)
  then have "select_existing (scrub (r_email b)) (scrub (r_username b)) st \<noteq> []"
    by (auto simp add: select_existing_def filter_empty_conv)
  with a show "register e w others b st =
          (failure 400 ''User with this email or username already exists'', st)"
    by (simp add: register_precheck)
qed

theorem register_atomic_witness:
  "canonical (gen_id w0)
   \<and> \<not> refused (r_email alice_again) \<and> \<not> refused (r_username alice_again)
   \<and> filter (\<lambda>u. u_email u = scrub (r_email alice_again)) (users st_alice) \<noteq> []
   \<and> register e0 w0 id alice_again st_alice =
        (failure 400 ''User with this email or username already exists'', st_alice)"
  using register_atomic [OF canonical_w0, of e0 id alice_again st_alice] canonical_w0
  by (simp add: st_alice_def alice_def alice_again_def)

text \<open>
  C1. A duplicate found by the pre-check is answered 400 before any write
  (\<open>register_precheck\<close>). A duplicate that only the database finds is not: when alice's
  registration commits between the pre-check and the insert of a second request with her
  email, the insert fails with the unique violation, the catch block answers 500 with the
  generic registration error, and the conflict is not reported as a duplicate user.
\<close>

theorem register_late_conflict:
  "select_existing (r_email alice_again) (r_username alice_again) empty_store = []
   \<and> register e0 w0 alice_registers alice_again empty_store =
        (fault ''Error registering user'' UniqueViolation, alice_registers empty_store)
   \<and> status (fst (register e0 w0 alice_registers alice_again empty_store)) = 500"
  by (simp add: register_def query_existing_def as_text_def text_in_def select_existing_def empty_store_def
      alice_registers_def transaction_def register_tx_def seq_def ret_def insert_user_def
      user_texts_def new_user_def alice_again_def alice_def fault_def w0_def js_append)

lemma register_success_example:
  "register e0 w0 id bob_body st_alice =
     (ok 201 ''User registered successfully''
        (Some (\<lparr>pu_id = gen_id w0, pu_name = js ''Bob'', pu_username = js ''bob'',
                 pu_email = js ''bob@example.com'',
                 pu_avatar_url = js ''https://i.pravatar.cc/150?u=bob'', pu_created_at = 1000\<rparr>,
               \<lparr>t_userId = gen_id w0, t_iat = 1000, t_exp = 605800, t_signed_with = ''k''\<rparr>)),
      st_alice\<lparr>users := [alice, scrub_user (new_user w0 bob_body)],
               portfolios := [default_portfolio (u_id alice), default_portfolio (gen_id w0)]\<rparr>)"
  using canonical_w0
  by (simp add: register_def query_existing_def as_text_def text_in_def select_existing_def transaction_def
        register_tx_def seq_def ret_def insert_user_def user_texts_def insert_portfolio_default
        new_user_def scrub_user_def returning_user_def generateToken_def expiresIn_def
        st_alice_def alice_def bob_body_def e0_def js_append default_portfolio_def)
     (simp add: w0_def js_append)

lemma register_rollback_example:
  "fst (insert_user (new_user w0 bob_body) st_orphan) = Inr (scrub_user (new_user w0 bob_body))
   \<and> register e0 w0 id bob_body st_orphan =
        (fault ''Error registering user'' UniqueViolation, st_orphan)"
  using canonical_w0
  by (simp add: register_def query_existing_def as_text_def text_in_def select_existing_def transaction_def
        register_tx_def seq_def ret_def insert_user_def user_texts_def insert_portfolio_default
        new_user_def scrub_user_def st_alice_def st_orphan_def alice_def bob_body_def js_append
        default_portfolio_def)
     (simp add: w0_def js_append)

lemma register_unsigned_example:
  "register (e0\<lparr>JWT_SECRET := []\<rparr>) w0 id bob_body st_alice =
     (fault ''Error registering user'' MissingSecret,
      st_alice\<lparr>users := [alice, scrub_user (new_user w0 bob_body)],
               portfolios := [default_portfolio (u_id alice), default_portfolio (gen_id w0)]\<rparr>)"
  using canonical_w0
  by (simp add: register_def query_existing_def as_text_def text_in_def select_existing_def transaction_def
        register_tx_def seq_def ret_def insert_user_def user_texts_def insert_portfolio_default
        new_user_def scrub_user_def returning_user_def generateToken_def
        st_alice_def alice_def bob_body_def e0_def js_append default_portfolio_def)
     (simp add: w0_def js_append)

section \<open>Messages: the claims\<close>

subsection \<open>Sample data\<close>

definition bob :: user_row where
  "bob = \<lparr>u_id = js ''b0b00000-0000-4000-8000-00000000000b'', u_name = js ''Bob'',
     u_username = js ''bob'', u_email = js ''bob@example.com'', u_password_hash = js ''h2'',
     u_bio = [], u_avatar_url = [], u_cover_image_url = [], u_created_at = 2\<rparr>"

definition msg1 :: message_row where
  "msg1 = \<lparr>m_id = js ''d0000000-0000-4000-8000-000000000001'', m_sender_id = u_id alice,
     m_recipient_id = u_id bob, m_message = js ''hi bob'', m_is_read = False, m_created_at = 10\<rparr>"

definition msg2 :: message_row where
  "msg2 = \<lparr>m_id = js ''d0000000-0000-4000-8000-000000000002'', m_sender_id = u_id alice,
     m_recipient_id = u_id bob, m_message = js ''are you there'', m_is_read = True,
     m_created_at = 20\<rparr>"

definition st_chat :: store where
  "st_chat = \<lparr>users = [alice, bob], portfolios = [], user_skills = [], projects = [],
     messages = [msg1, msg2]\<rparr>"

definition invalid_id :: "'d reply" where
  \<comment> \<open>the reply of \<^verbatim>\<open>validate\<close> to a failed \<^verbatim>\<open>uuidParam\<close> chain\<close>
  "invalid_id = \<lparr>status = 400, success = False, message = ''Validation failed'',
     errors = [''Invalid ID format''], error = None, data = None\<rparr>"

definition ALICE :: jsstring where
  \<comment> \<open>alice's identifier written in capitals\<close>
  "ALICE = js ''A0000000-0000-4000-8000-000000000001''"

definition to_herself :: "string \<rightharpoonup> jsstring" where
  "to_herself = [''recipient_id'' \<mapsto> ALICE, ''message'' \<mapsto> js ''hello'']"

lemma uuid_in_ALICE: "uuid_in ALICE = Some (u_id alice)"
  unfolding ALICE_def alice_def by code_simp

lemma isUUID_ALICE: "isUUID ALICE"
  unfolding ALICE_def by code_simp

lemma ALICE_differs: "ALICE \<noteq> u_id alice"
  by (simp add: ALICE_def alice_def)

lemma trim_unspaced:
  assumes "s \<noteq> []" and "\<not> is_space (hd s)" and "\<not> is_space (last s)"
  shows "trim s = s"
proof -
  have front: "dropWhile is_space s = s"
    using assms(1,2) by (cases s) simp_all
  have "rev s \<noteq> []" and "\<not> is_space (hd (rev s))"
    using assms(1,3) by (simp_all add: hd_rev)
  then have "dropWhile is_space (rev s) = rev s"
    by (cases "rev s") simp_all
  with front show ?thesis
    by (simp add: trim_def)
qed

lemma trim_hello: "trim (js ''hello'') = js ''hello''"
  by (rule trim_unspaced) (simp_all add: js_def is_space_def)

lemma length_hello: "isLength_max 5000 (js ''hello'')"
  by (simp add: isLength_max_def js_def)

lemma hello_not_empty: "js ''hello'' \<noteq> []"
  by (simp add: js_def)

lemma ALICE_not_empty: "ALICE \<noteq> []"
  by (simp add: ALICE_def js_def)

lemma sendMessage_to_herself: "sendMessage to_herself = []"
proof -
  have recipient: "field to_herself ''recipient_id'' = ALICE"
    and msg: "field to_herself ''message'' = js ''hello''"
    by (simp_all add: to_herself_def field_def)
  show ?thesis
    unfolding sendMessage_def recipient msg trim_hello
    using isUUID_ALICE length_hello hello_not_empty ALICE_not_empty by simp
qed

text \<open>
  C7. The self-message check compares the recipient with the caller as strings
  (\<^verbatim>\<open>recipient_id === req.user.id\<close>), while the database compares them as UUIDs. Alice
  sends a message whose \<^verbatim>\<open>recipient_id\<close> is her own identifier spelt in capitals. The
  validation chain accepts it, the lookup finds her row, the two strings differ, and the
  insert stores a message from alice to alice: the answer is 201, not 400, and the store
  has gained a row. With her identifier spelt as the database prints it the check answers
  400 and nothing is written (\<open>send_message_same_spelling\<close>).
\<close>

theorem send_message_to_self_in_capitals:
  "uuid_in (field to_herself ''recipient_id'') = Some (u_id alice)
   \<and> send_message_route w0 (u_id alice) to_herself st_alice =
       (ok 201 ''Message sent successfully''
          (Some \<lparr>m_id = gen_id w0, m_sender_id = u_id alice, m_recipient_id = u_id alice,
                 m_message = js ''hello'', m_is_read = False, m_created_at = 1000\<rparr>),
        st_alice\<lparr>messages :=
          [\<lparr>m_id = gen_id w0, m_sender_id = u_id alice, m_recipient_id = u_id alice,
            m_message = js ''hello'', m_is_read = False, m_created_at = 1000\<rparr>]\<rparr>)"
proof -
  have recipient: "field to_herself ''recipient_id'' = ALICE"
    and msg: "trim (field to_herself ''message'') = js ''hello''"
    using trim_hello by (simp_all add: to_herself_def field_def)
  have caller: "uuid_in (u_id alice) = Some (u_id alice)"
    using canonical_alice by (simp add: canonical_def)
  have found: "select_user ALICE st_alice = (Inr [alice], st_alice)"
    by (simp add: select_user_def as_uuid_def uuid_in_ALICE st_alice_def)
  have inserted: "insert_message w0 (u_id alice) ALICE (js ''hello'') st_alice =
      (Inr \<lparr>m_id = gen_id w0, m_sender_id = u_id alice, m_recipient_id = u_id alice,
             m_message = js ''hello'', m_is_read = False, m_created_at = 1000\<rparr>,
       st_alice\<lparr>messages :=
          [\<lparr>m_id = gen_id w0, m_sender_id = u_id alice, m_recipient_id = u_id alice,
            m_message = js ''hello'', m_is_read = False, m_created_at = 1000\<rparr>]\<rparr>)"
    by (simp add: insert_message_def as_uuid_def uuid_in_ALICE caller as_text_accepted)
       (simp add: st_alice_def w0_def)
  show ?thesis
    unfolding send_message_route_def sendMessage_to_herself recipient msg
    by (simp add: validate_def send_message_def attempt_def seq_def found inserted ret_def
          ALICE_differs uuid_in_ALICE)
qed

subsection \<open>The handlers and the identifier check\<close>

lemma send_message_same_spelling:
  "snd (send_message w caller caller msg st) = st
   \<and> status (fst (send_message w caller caller msg st)) \<noteq> 201"
  by (simp add: send_message_def attempt_def seq_def select_user_def as_uuid_def ret_def
        failure_def fault_def split: option.splits)

lemma not_isUUID_empty: "\<not> isUUID []"
  by (simp add: isUUID_def hex_group_def dash_def eval_nat_numeral)

lemma uuidParam_no_id: "params ''id'' = None \<Longrightarrow> uuidParam params = [''Invalid ID format'']"
  by (simp add: uuidParam_def field_def not_isUUID_empty)

lemma delete_message_route_rejects:
  "delete_message_route caller messageId st = (invalid_id, st)"
  by (simp add: delete_message_route_def uuidParam_no_id validate_def invalid_id_def)

lemma mark_read_route_rejects:
  "mark_read_route caller messageId st = (invalid_id, st)"
  by (simp add: mark_read_route_def uuidParam_no_id validate_def invalid_id_def)

lemma get_messages_route_rejects:
  "get_messages_route caller userId limit offset st = (invalid_id, st)"
  by (simp add: get_messages_route_def uuidParam_no_id validate_def invalid_id_def)

lemma filter_none_keeps: "filter P xs = [] \<Longrightarrow> filter (\<lambda>x. \<not> P x) xs = xs"
  by (induction xs) (auto split: if_splits)

lemma delete_message_not_sender:
  assumes "canonical messageId" and "canonical caller"
    and "filter (\<lambda>m. m_id m = messageId \<and> m_sender_id m = caller) (messages st) = []"
  shows "delete_message caller messageId st =
       (failure 404 ''Message not found or not authorized to delete'', st)"
proof -
  have keep: "filter (\<lambda>m. \<not> (m_id m = messageId \<and> m_sender_id m = caller)) (messages st)
                = messages st"
    using assms(3) by (rule filter_none_keeps)
  have "delete_from_messages messageId caller st = (Inr [], st)"
    unfolding delete_from_messages_def as_uuid_canonical [OF assms(1)]
      as_uuid_canonical [OF assms(2)] keep assms(3)
    by simp
  then show ?thesis
    by (simp add: delete_message_def attempt_def seq_def ret_def)
qed

lemma mark_read_twice:
  "mark_read caller messageId (snd (mark_read caller messageId st))
     = mark_read caller messageId st"
proof (cases "uuid_in messageId")
  case None
  then show ?thesis
    by (simp add: mark_read_def attempt_def seq_def update_read_def as_uuid_def)
next
  case (Some i)
  show ?thesis
  proof (cases "uuid_in caller")
    case None
    with Some show ?thesis
      by (simp add: mark_read_def attempt_def seq_def update_read_def as_uuid_def)
  next
    case (Some c)
    let ?hit = "\<lambda>m. m_id m = i \<and> m_recipient_id m = c"
    let ?f = "\<lambda>m. if ?hit m then m\<lparr>m_is_read := True\<rparr> else m"
    have upd: "update_read messageId caller s =
        (Inr (map (\<lambda>m. (m_id m, True)) (filter ?hit (messages s))),
         s\<lparr>messages := map ?f (messages s)\<rparr>)" for s
      using \<open>uuid_in messageId = Some i\<close> Some by (simp add: update_read_def as_uuid_def)
    have st': "snd (mark_read caller messageId st) = st\<lparr>messages := map ?f (messages st)\<rparr>"
      by (simp add: mark_read_def attempt_def seq_def upd ret_def split: list.splits)
    have rows: "map (\<lambda>m. (m_id m, True)) (filter ?hit (map ?f xs))
                  = map (\<lambda>m. (m_id m, True)) (filter ?hit xs)" for xs :: "message_row list"
      by (induction xs) auto
    have twice: "?f \<circ> ?f = ?f"
      by (auto simp add: fun_eq_iff)
    have "mark_read caller messageId (st\<lparr>messages := map ?f (messages st)\<rparr>)
            = mark_read caller messageId st"
      unfolding mark_read_def attempt_def seq_def upd
      by (simp add: rows twice ret_def cong: list.case_cong)
    then show ?thesis
      by (simp only: st')
  qed
qed

lemma mark_read_already_read:
  assumes "canonical messageId" and "canonical caller"
    and "filter (\<lambda>m. m_id m = messageId \<and> m_recipient_id m = caller \<and> \<not> m_is_read m)
             (messages st) = []"
  shows "snd (mark_read caller messageId st) = st"
proof -
  have "map (\<lambda>m. if m_id m = messageId \<and> m_recipient_id m = caller
                  then m\<lparr>m_is_read := True\<rparr> else m) (messages st) = messages st"
    using assms(3) by (auto simp add: filter_empty_conv map_idI)
  then show ?thesis
    by (simp add: mark_read_def attempt_def seq_def update_read_def ret_def
          as_uuid_canonical [OF assms(1)] as_uuid_canonical [OF assms(2)] split: list.splits)
qed

lemma get_messages_store:
  assumes "canonical caller" and "canonical userId"
    and "filter (\<lambda>r. u_id r = userId) (users st) \<noteq> []"
  shows "snd (get_messages caller userId limit offset st) =
           st\<lparr>messages :=
                map (\<lambda>m. m\<lparr>m_is_read :=
                            (m_is_read m \<or> (m_recipient_id m = caller \<and> m_sender_id m = userId))\<rparr>)
                  (messages st)\<rparr>
         \<and> status (fst (get_messages caller userId limit offset st)) = 200"
proof -
  have same: "(\<lambda>m. if m_recipient_id m = caller \<and> m_sender_id m = userId \<and> \<not> m_is_read m
                    then m\<lparr>m_is_read := True\<rparr> else m)
            = (\<lambda>m. m\<lparr>m_is_read :=
                       (m_is_read m \<or> (m_recipient_id m = caller \<and> m_sender_id m = userId))\<rparr>)"
    by (auto simp add: fun_eq_iff)
  show ?thesis
    using assms(3)
    by (simp add: get_messages_def attempt_def seq_def select_user_def select_thread_def
          mark_thread_read_def ret_def ok_def same
          as_uuid_canonical [OF assms(1)] as_uuid_canonical [OF assms(2)] split: list.splits)
qed

text \<open>
  C8. Bob received \<open>msg1\<close> from alice and did not send it. His request to delete it is
  stopped by the identifier check: the answer is 400 with "Validation failed", not the 404
  of the handler (\<open>delete_message_not_sender\<close>); the store is unchanged.
\<close>

theorem delete_by_recipient_rejected:
  "filter (\<lambda>m. m_id m = m_id msg1 \<and> m_sender_id m = u_id bob) (messages st_chat) = []
   \<and> delete_message_route (u_id bob) (m_id msg1) st_chat = (invalid_id, st_chat)
   \<and> status (fst (delete_message_route (u_id bob) (m_id msg1) st_chat)) = 400"
  by (simp add: delete_message_route_def uuidParam_def field_def not_isUUID_empty validate_def
       invalid_id_def st_chat_def msg1_def msg2_def alice_def bob_def)

text \<open>
  C9. \<open>msg2\<close> is addressed to bob and already read. His request to mark it read is stopped
  by the identifier check: the answer is 400, not the 200 of the handler, whose effect
  would be idempotent (\<open>mark_read_twice\<close>, \<open>mark_read_already_read\<close>); the store is unchanged.
\<close>

theorem mark_read_again_rejected:
  "m_recipient_id msg2 = u_id bob \<and> m_is_read msg2
   \<and> mark_read_route (u_id bob) (m_id msg2) st_chat = (invalid_id, st_chat)
   \<and> status (fst (mark_read_route (u_id bob) (m_id msg2) st_chat)) = 400"
  by (simp add: mark_read_route_def uuidParam_def field_def not_isUUID_empty validate_def
       invalid_id_def msg2_def)

text \<open>
  C10. Bob fetches his thread with alice while \<open>msg1\<close>, from alice to bob, is unread. The
  request is stopped by the identifier check: the answer is 400, the handler's update
  (\<open>get_messages_store\<close>) does not run, and \<open>msg1\<close> is still unread afterwards.
\<close>

theorem thread_fetch_rejected:
  "get_messages_route (u_id bob) (u_id alice) None None st_chat = (invalid_id, st_chat)
   \<and> filter (\<lambda>m. m_recipient_id m = u_id bob \<and> m_sender_id m = u_id alice \<and> \<not> m_is_read m)
        (messages (snd (get_messages_route (u_id bob) (u_id alice) None None st_chat))) = [msg1]"
  by (simp add: get_messages_route_def uuidParam_def field_def not_isUUID_empty validate_def
       invalid_id_def st_chat_def msg1_def msg2_def alice_def bob_def)

section \<open>Portfolio and skill updates: the claims\<close>

subsection \<open>What the statements built by the handler do\<close>

lemma those_map_Some:
  "(\<And>x. x \<in> set xs \<Longrightarrow> f x = Some (g x)) \<Longrightarrow> those (map f xs) = Some (map g xs)"
  by (induction xs) auto

lemma bind_param_head: "bind_param (c # vs) (Suc 0) = Some c"
  by (simp add: bind_param_def)

lemma bind_param_tail: "i < length vs \<Longrightarrow> bind_param (c # vs) (Suc (Suc i)) = Some (vs ! i)"
  by (simp add: bind_param_def)





lemma replace_featured_refused:
  assumes "canonical caller" and "those (map uuid_in fp) = None"
  shows "fst (replace_featured caller fp st) = Inl InvalidParameter"
proof -
  have "those (map (bind_param (caller # fp)) (map (\<lambda>index. index + 2) [0..<length fp]))
          = Some (map (\<lambda>i. fp ! i) [0..<length fp])"
    unfolding map_map
    by (rule those_map_Some) (simp add: bind_param_tail)
  then have sent: "those (map (bind_param (caller # fp)) (map (\<lambda>index. index + 2) [0..<length fp]))
          = Some fp"
    by (simp add: map_nth)
  have "fp \<noteq> []" using assms(2) by auto
  then show ?thesis
    unfolding replace_featured_def seq_def unfeature_projects_def feature_projects_def
      as_uuid_canonical [OF assms(1)] prod.case sum.case sent
    using assms by (simp add: bind_param_head canonical_def)
qed


subsection \<open>The transaction and the routes\<close>




lemma featured_ids_trimmed [simp]: "featured_ids (trimmed b) = featured_ids b"
  by (simp add: featured_ids_def trimmed_def)









lemma put_skills_status:
  "status (fst (put_skills caller (Array sk) st)) = 200
   \<or> status (fst (put_skills caller (Array sk) st)) = 500"
  by (cases "transaction (replace_skills caller sk) st" rule: prod.exhaust;
      cases "fst (transaction (replace_skills caller sk) st)")
     (auto simp add: put_skills_def attempt_def seq_def ret_def ok_def fault_def)




subsection \<open>Sample data\<close>

definition alice_folio :: portfolio_row where
  "alice_folio = \<lparr>p_user_id = u_id alice, p_summary = js ''Backend developer'',
     p_experience = js ''5 years'', p_education = js ''BSc''\<rparr>"

definition pa1 :: project_row where
  "pa1 = \<lparr>pr_id = js ''e0000000-0000-4000-8000-0000000000a1'', pr_user_id = u_id alice,
     pr_title = js ''Parser'', pr_is_featured = True\<rparr>"

definition pa2 :: project_row where
  "pa2 = \<lparr>pr_id = js ''e0000000-0000-4000-8000-0000000000a2'', pr_user_id = u_id alice,
     pr_title = js ''Compiler'', pr_is_featured = False\<rparr>"

definition pb1 :: project_row where
  "pb1 = \<lparr>pr_id = js ''e0000000-0000-4000-8000-0000000000b1'', pr_user_id = u_id bob,
     pr_title = js ''Game'', pr_is_featured = False\<rparr>"

definition pb2 :: project_row where
  "pb2 = \<lparr>pr_id = js ''e0000000-0000-4000-8000-0000000000b2'', pr_user_id = u_id bob,
     pr_title = js ''Editor'', pr_is_featured = True\<rparr>"


definition st_folio :: store where
  "st_folio = \<lparr>users = [alice, bob],
     portfolios = [alice_folio, default_portfolio (u_id bob)],
     user_skills = [(u_id alice, js ''rust''), (u_id bob, js ''go''), (u_id alice, js ''sql'')],
     projects = [pa1, pa2, pb1, pb2], messages = []\<rparr>"

definition no_change :: portfolio_body where
  "no_change = \<lparr>b_summary = None, b_experience = None, b_education = None,
     b_skills = Undefined, b_featured_projects = Undefined\<rparr>"





lemma featured_sample_refused: "those (map uuid_in [pr_id pa2, js ''not-a-uuid'']) = None"
  unfolding pa2_def by code_simp

lemma seq_fails_last:
  assumes "\<And>s. \<exists>e. fst (k s) = Inl e"
  shows "\<exists>e. fst (seq m (\<lambda>_. k) st) = Inl e"
proof (cases "m st")
  case (Pair r s)
  then show ?thesis
    using assms [of s] by (cases r) (simp_all add: seq_def)
qed

lemma put_portfolio_tx_refused:
  assumes "canonical caller" and "b_featured_projects b = Array L"
    and "those (map uuid_in L) = None"
  shows "\<exists>e. fst (put_portfolio_tx caller b st) = Inl e"
proof -
  obtain updates vals paramCount where built:
    "push_update Education (b_education b) (push_update Experience (b_experience b)
       (push_update Summary (b_summary b) ([], [], 1))) = (updates, vals, paramCount)"
    by (rule prod_cases3)
  have last: "\<exists>e. fst (replace_featured caller L s) = Inl e" for s
    using replace_featured_refused [OF assms(1,3), of s] by simp
  show ?thesis
    unfolding put_portfolio_tx_def built prod.case assms(2) jsfield.case
    by (rule seq_fails_last, rule seq_fails_last, rule last)
qed

lemma put_portfolio_identifier_refused:
  assumes "canonical caller" and "updatePortfolio b = []" and "b_featured_projects b = Array L"
    and "those (map uuid_in L) = None"
  shows "snd (put_portfolio_route caller b st) = st
     \<and> status (fst (put_portfolio_route caller b st)) = 500"
proof -
  have "b_featured_projects (trimmed b) = Array L"
    using assms(3) by (simp add: trimmed_def)
  from put_portfolio_tx_refused [OF assms(1) this assms(4), of st]
  obtain e where "fst (put_portfolio_tx caller (trimmed b) st) = Inl e" ..
  then obtain s where "put_portfolio_tx caller (trimmed b) st = (Inl e, s)"
    by (cases "put_portfolio_tx caller (trimmed b) st") simp
  then show ?thesis
    using assms(2)
    by (simp add: put_portfolio_route_def validate_def put_portfolio_def attempt_def seq_def
          transaction_def fault_def)
qed

lemma put_portfolio_identifier_refused_example:
  "snd (put_portfolio_route (u_id alice)
          (no_change\<lparr>b_summary := Some (js ''new''),
                     b_featured_projects := Array [pr_id pa2, js ''not-a-uuid'']\<rparr>) st_folio)
     = st_folio
   \<and> status (fst (put_portfolio_route (u_id alice)
          (no_change\<lparr>b_summary := Some (js ''new''),
                     b_featured_projects := Array [pr_id pa2, js ''not-a-uuid'']\<rparr>) st_folio))
     = 500"
  using put_portfolio_identifier_refused [OF canonical_alice _ _ featured_sample_refused,
    of "no_change\<lparr>b_summary := Some (js ''new''),
                     b_featured_projects := Array [pr_id pa2, js ''not-a-uuid'']\<rparr>" st_folio]
  by (simp add: updatePortfolio_def no_change_def)







end
